theory Spec2Isabelle
  imports Main
begin

section \<open>The option widget (src/lib/core/option/option.ts)\<close>

text \<open>
  An object reference. Instances of \<open>MdOption\<close> live in a store that is indexed by
  references; a method receives the reference of its receiver (\<open>this\<close>) next to the
  receiver's fields.
\<close>

type_synonym ref = nat

text \<open>\<^verbatim>\<open>class MdOptionSelectionChange { constructor(public source: MdOption,
  public isUserInput = false) { } }\<close>\<close>

record MdOptionSelectionChange =
  source :: ref
  isUserInput :: bool

text \<open>
  Modelled from the spec: the class \<open>MdOptgroup\<close>, imported from \<^verbatim>\<open>./optgroup\<close> and not
  among the sources. The spec gives the option "an optional parent group's disabled
  flag", a boolean; the option reads nothing else of its group (\<open>this.group.disabled\<close>).
  No method of the option writes to the group, so the group is held by value: the state
  it has when the method runs.
\<close>

record MdOptgroup =
  optgroup_disabled :: bool

text \<open>
  The host DOM element behind \<open>_element.nativeElement\<close>: whether it has a \<open>focus\<close>
  member, and how often \<open>focus()\<close> was called on it.
\<close>

record HostElement =
  hasFocusMember :: bool
  focusCalls :: nat

text \<open>A DOM keyboard event: its key code and the calls of \<open>preventDefault()\<close> it received.\<close>

record KeyboardEvent =
  keyCode :: int
  preventDefaultCalls :: nat

text \<open>
  The fields of \<open>MdOption\<close>. The private fields \<open>_selected\<close>, \<open>_active\<close>, ... are written
  \<open>priv_selected\<close>, \<open>priv_active\<close>, ... The collaborators the framework injects are
  represented by what the option does to them: \<open>onSelectionChange\<close> is the sequence of
  values passed to \<open>onSelectionChange.emit\<close>, oldest first, and \<open>markForCheckCalls\<close>
  counts the calls of \<open>_changeDetectorRef.markForCheck()\<close>.
\<close>

record 'v MdOption =
  priv_selected :: bool
  priv_active :: bool
  priv_multiple :: bool
  priv_disableRipple :: bool
  priv_disabled :: bool
  priv_id :: string
  opt_value :: "'v option"
  onSelectionChange :: "MdOptionSelectionChange list"
  element :: HostElement
  markForCheckCalls :: nat
  group :: "MdOptgroup option"
  isCompatibilityMode :: "bool option"

subsection \<open>The identifier counter\<close>

text \<open>
  \<open>_uniqueIdCounter\<close> is a JavaScript number that starts at 0 and is only ever changed by
  \<open>_uniqueIdCounter++\<close>. A number is an IEEE double: adding 1 is exact below \<open>2^53\<close>, and
  \<open>2^53 + 1\<close> rounds back to \<open>2^53\<close>. The counter therefore takes the values
  \<open>0, 1, ..., 2^53\<close>, on which \<open>postIncrement\<close> is the new value that \<open>++\<close> stores.
\<close>

definition MAX_EXACT :: nat where
  "MAX_EXACT = 2 ^ 53"

definition postIncrement :: "nat \<Rightarrow> nat" where
  "postIncrement n = (if n < MAX_EXACT then n + 1 else n)"

text \<open>
  The decimal digits of a number, as the template literal \<^verbatim>\<open>`md-option-${n}`\<close> prints an
  integer below \<open>10^21\<close>.
\<close>

definition digitChar :: "nat \<Rightarrow> char" where
  "digitChar d = ''0123456789'' ! d"

function numberToString :: "nat \<Rightarrow> string" where
  "numberToString n =
     (if n < 10 then [digitChar n]
      else numberToString (n div 10) @ [digitChar (n mod 10)])"
  by pat_completeness auto
termination
  by (relation "measure (\<lambda>n. n)") auto

declare numberToString.simps [simp del]

definition optionId :: "nat \<Rightarrow> string" where
  "optionId n = ''md-option-'' @ numberToString n"

subsection \<open>Construction\<close>

text \<open>
  The module: its counter and the instances constructed so far, in construction order.
  The reference of an instance is its index in \<open>instances\<close>.
\<close>

record 'v Module =
  uniqueIdCounter :: nat
  instances :: "'v MdOption list"

definition initialModule :: "'v Module" where
  "initialModule = \<lparr>uniqueIdCounter = 0, instances = []\<rparr>"

text \<open>
  The field initialisers and the constructor: the arguments are \<open>_element\<close>, \<open>group\<close> and
  \<open>_isCompatibilityMode\<close> (\<open>_changeDetectorRef\<close> starts with no call, the emitter with no
  emitted value, \<open>value\<close> undefined). The result is the new field record and the counter
  after \<open>_uniqueIdCounter++\<close>.
\<close>

definition constructor :: "HostElement \<Rightarrow> MdOptgroup option \<Rightarrow> bool option \<Rightarrow> nat
    \<Rightarrow> 'v MdOption \<times> nat" where
  "constructor el g compatMode counter =
     (\<lparr>priv_selected = False, priv_active = False, priv_multiple = False,
       priv_disableRipple = False, priv_disabled = False,
       priv_id = optionId counter,
       opt_value = None, onSelectionChange = [], element = el, markForCheckCalls = 0,
       group = g, isCompatibilityMode = compatMode\<rparr>,
      postIncrement counter)"

definition newMdOption :: "HostElement \<Rightarrow> MdOptgroup option \<Rightarrow> bool option \<Rightarrow> 'v Module
    \<Rightarrow> 'v Module" where
  "newMdOption el g compatMode m =
     (case constructor el g compatMode (uniqueIdCounter m) of
        (opt, counter') \<Rightarrow>
          m\<lparr>uniqueIdCounter := counter', instances := instances m @ [opt]\<rparr>)"

subsection \<open>Getters and setters\<close>

definition markForCheck :: "'v MdOption \<Rightarrow> 'v MdOption" where
  "markForCheck opt = opt\<lparr>markForCheckCalls := markForCheckCalls opt + 1\<rparr>"

definition multiple :: "'v MdOption \<Rightarrow> bool" where
  "multiple opt = priv_multiple opt"

definition set_multiple :: "bool \<Rightarrow> 'v MdOption \<Rightarrow> 'v MdOption" where
  "set_multiple v opt =
     (if v \<noteq> priv_multiple opt then markForCheck (opt\<lparr>priv_multiple := v\<rparr>) else opt)"

definition get_id :: "'v MdOption \<Rightarrow> string" where
  "get_id opt = priv_id opt"

definition selected :: "'v MdOption \<Rightarrow> bool" where
  "selected opt = priv_selected opt"

text \<open>\<^verbatim>\<open>get disabled() { return (this.group && this.group.disabled) || this._disabled; }\<close>\<close>

definition disabled :: "'v MdOption \<Rightarrow> bool" where
  "disabled opt =
     ((case group opt of None \<Rightarrow> False | Some g \<Rightarrow> optgroup_disabled g) \<or> priv_disabled opt)"

text \<open>
  The setter stores \<open>coerceBooleanProperty(value)\<close>, a function of \<^verbatim>\<open>@angular/cdk\<close>; the
  argument here is that function's result.
\<close>

definition set_disabled :: "bool \<Rightarrow> 'v MdOption \<Rightarrow> 'v MdOption" where
  "set_disabled coerced opt = opt\<lparr>priv_disabled := coerced\<rparr>"

definition disableRipple :: "'v MdOption \<Rightarrow> bool" where
  "disableRipple opt = priv_disableRipple opt"

definition set_disableRipple :: "bool \<Rightarrow> 'v MdOption \<Rightarrow> 'v MdOption" where
  "set_disableRipple v opt = markForCheck (opt\<lparr>priv_disableRipple := v\<rparr>)"

definition active :: "'v MdOption \<Rightarrow> bool" where
  "active opt = priv_active opt"

definition set_value :: "'v \<Rightarrow> 'v MdOption \<Rightarrow> 'v MdOption" where
  "set_value v opt = opt\<lparr>opt_value := Some v\<rparr>"

subsection \<open>Methods\<close>

text \<open>\<^verbatim>\<open>this.onSelectionChange.emit(new MdOptionSelectionChange(this, isUserInput))\<close>\<close>

definition emitSelectionChangeEvent :: "ref \<Rightarrow> bool \<Rightarrow> 'v MdOption \<Rightarrow> 'v MdOption" where
  "emitSelectionChangeEvent this userInput opt =
     opt\<lparr>onSelectionChange :=
           onSelectionChange opt @ [\<lparr>source = this, isUserInput = userInput\<rparr>]\<rparr>"

definition select :: "ref \<Rightarrow> 'v MdOption \<Rightarrow> 'v MdOption" where
  "select this opt =
     emitSelectionChangeEvent this False (markForCheck (opt\<lparr>priv_selected := True\<rparr>))"

definition deselect :: "ref \<Rightarrow> 'v MdOption \<Rightarrow> 'v MdOption" where
  "deselect this opt =
     emitSelectionChangeEvent this False (markForCheck (opt\<lparr>priv_selected := False\<rparr>))"

definition getHostElement :: "'v MdOption \<Rightarrow> HostElement" where
  "getHostElement opt = element opt"

definition focus :: "'v MdOption \<Rightarrow> 'v MdOption" where
  "focus opt =
     (let el = getHostElement opt in
      if hasFocusMember el then opt\<lparr>element := el\<lparr>focusCalls := focusCalls el + 1\<rparr>\<rparr>
      else opt)"

definition setActiveStyles :: "'v MdOption \<Rightarrow> 'v MdOption" where
  "setActiveStyles opt =
     (if \<not> priv_active opt then markForCheck (opt\<lparr>priv_active := True\<rparr>) else opt)"

definition setInactiveStyles :: "'v MdOption \<Rightarrow> 'v MdOption" where
  "setInactiveStyles opt =
     (if priv_active opt then markForCheck (opt\<lparr>priv_active := False\<rparr>) else opt)"

definition selectViaInteraction :: "ref \<Rightarrow> 'v MdOption \<Rightarrow> 'v MdOption" where
  "selectViaInteraction this opt =
     (if \<not> disabled opt then
        emitSelectionChangeEvent this True
          (markForCheck
             (opt\<lparr>priv_selected := (if multiple opt then \<not> priv_selected opt else True)\<rparr>))
      else opt)"

definition preventDefault :: "KeyboardEvent \<Rightarrow> KeyboardEvent" where
  "preventDefault ev = ev\<lparr>preventDefaultCalls := preventDefaultCalls ev + 1\<rparr>"

text \<open>
  \<open>ENTER\<close> and \<open>SPACE\<close> are constants imported from \<^verbatim>\<open>../keyboard/keycodes\<close>; they are
  parameters here. The result is the receiver and the event after the call.
\<close>

definition handleKeydown :: "int \<Rightarrow> int \<Rightarrow> ref \<Rightarrow> KeyboardEvent \<Rightarrow> 'v MdOption
    \<Rightarrow> 'v MdOption \<times> KeyboardEvent" where
  "handleKeydown ENTER SPACE this ev opt =
     (if keyCode ev = ENTER \<or> keyCode ev = SPACE then
        (let opt' = selectViaInteraction this opt;
             ev' = preventDefault ev
         in (opt', ev'))
      else (opt, ev))"

definition getTabIndex :: "'v MdOption \<Rightarrow> string" where
  "getTabIndex opt = (if disabled opt then ''-1'' else ''0'')"

text \<open>
  The host listeners of the component metadata:
  \<^verbatim>\<open>'(click)': '_selectViaInteraction()'\<close> and \<^verbatim>\<open>'(keydown)': '_handleKeydown($event)'\<close>.
  A click carries no keyboard event.
\<close>

datatype HostEvent = Click | Keydown KeyboardEvent

fun hostListener :: "int \<Rightarrow> int \<Rightarrow> ref \<Rightarrow> HostEvent \<Rightarrow> 'v MdOption
    \<Rightarrow> 'v MdOption \<times> KeyboardEvent option" where
  "hostListener ENTER SPACE this Click opt = (selectViaInteraction this opt, None)"
| "hostListener ENTER SPACE this (Keydown ev) opt =
     (case handleKeydown ENTER SPACE this ev opt of (opt', ev') \<Rightarrow> (opt', Some ev'))"

subsection \<open>The public interface and the module's life\<close>

text \<open>
  One call on an instance from outside: a method, a setter or a host listener. The
  event a key handler has changed is the caller's; the instance keeps its fields.
\<close>

datatype 'v MethodCall =
    Select
  | Deselect
  | Focus
  | SetActiveStyles
  | SetInactiveStyles
  | HandleKeydown KeyboardEvent
  | SelectViaInteraction
  | SetMultiple bool
  | SetDisabled bool
  | SetDisableRipple bool
  | SetValue 'v

fun invoke :: "int \<Rightarrow> int \<Rightarrow> ref \<Rightarrow> 'v MethodCall \<Rightarrow> 'v MdOption \<Rightarrow> 'v MdOption" where
  "invoke ENTER SPACE this Select opt = select this opt"
| "invoke ENTER SPACE this Deselect opt = deselect this opt"
| "invoke ENTER SPACE this Focus opt = focus opt"
| "invoke ENTER SPACE this SetActiveStyles opt = setActiveStyles opt"
| "invoke ENTER SPACE this SetInactiveStyles opt = setInactiveStyles opt"
| "invoke ENTER SPACE this (HandleKeydown ev) opt = fst (handleKeydown ENTER SPACE this ev opt)"
| "invoke ENTER SPACE this SelectViaInteraction opt = selectViaInteraction this opt"
| "invoke ENTER SPACE this (SetMultiple v) opt = set_multiple v opt"
| "invoke ENTER SPACE this (SetDisabled v) opt = set_disabled v opt"
| "invoke ENTER SPACE this (SetDisableRipple v) opt = set_disableRipple v opt"
| "invoke ENTER SPACE this (SetValue v) opt = set_value v opt"

text \<open>
  What a page does with the module: it constructs an instance, or calls an instance it
  holds a reference to. A script that names a reference no construction has returned is
  not one JavaScript can run; it yields \<open>None\<close>.
\<close>

datatype 'v Action =
    New HostElement "MdOptgroup option" "bool option"
  | Call ref "'v MethodCall"

fun step :: "int \<Rightarrow> int \<Rightarrow> 'v Action \<Rightarrow> 'v Module \<Rightarrow> 'v Module option" where
  "step ENTER SPACE (New el g compatMode) m = Some (newMdOption el g compatMode m)"
| "step ENTER SPACE (Call r c) m =
     (if r < length (instances m) then
        Some (m\<lparr>instances := (instances m)[r := invoke ENTER SPACE r c (instances m ! r)]\<rparr>)
      else None)"

fun run :: "int \<Rightarrow> int \<Rightarrow> 'v Action list \<Rightarrow> 'v Module \<Rightarrow> 'v Module option" where
  "run ENTER SPACE [] m = Some m"
| "run ENTER SPACE (a # as) m =
     (case step ENTER SPACE a m of None \<Rightarrow> None | Some m' \<Rightarrow> run ENTER SPACE as m')"

section \<open>The package build tasks (createPackageBuildTasks)\<close>

text \<open>
  The tools the tasks delegate to are not part of the file: a task body is the call it
  makes, with its arguments. \<open>SequenceTask\<close> is \<open>sequenceTask(...)\<close>, whose arguments are
  task names and arrays of task names.
\<close>

datatype Step = Task string | Parallel "string list"

record HtmlMinifierOptions =
  collapseWhitespace :: bool
  removeComments :: bool
  caseSensitive :: bool
  removeAttributeQuotes :: bool

datatype ToolCall =
    SequenceTask "Step list"
  | ComposeRelease string "bool option"
  | Tsc string string
  | CompileSecondaryEntryPointsEsm "ToolCall list"
  | PromiseAll "ToolCall list"
  | BuildPrimaryEntryPointBundles string string
  | BuildAllSecondaryEntryPointBundles string
  | BuildScssTask string string bool
  | SrcDest string string
  | SrcHtmlminDest string HtmlMinifierOptions string
  | InlineResourcesForDirectory string
  | WatchFiles string "string list"

text \<open>A gulp task: the tasks it depends on and, when it has one, its body.\<close>

record GulpTask =
  dependsOn :: "string list"
  body :: "ToolCall option"

type_synonym Registry = "string \<rightharpoonup> GulpTask"

text \<open>\<open>task(name, deps, fn)\<close>: a later registration of a name replaces an earlier one.\<close>

definition task :: "string \<Rightarrow> string list \<Rightarrow> ToolCall option \<Rightarrow> Registry \<Rightarrow> Registry" where
  "task name deps fn reg = reg(name \<mapsto> \<lparr>dependsOn = deps, body = fn\<rparr>)"

text \<open>
  What the file imports and does not define: \<open>path.join\<close>, the two directories of
  \<open>buildConfig\<close>, and \<open>getSecondaryEntryPointsForPackage\<close>.
\<close>

record BuildEnv =
  join :: "string list \<Rightarrow> string"
  packagesDir :: string
  outputDir :: string
  getSecondaryEntryPointsForPackage :: "string \<Rightarrow> string list"

record PackageTaskOptions =
  useSecondaryEntryPoints :: "bool option"

definition htmlMinifierOptions :: HtmlMinifierOptions where
  "htmlMinifierOptions =
     \<lparr>collapseWhitespace = True, removeComments = True, caseSensitive = True,
      removeAttributeQuotes = False\<rparr>"

text \<open>The \<open>tsc\<close> runs of the loop over the secondary entry points, in order.\<close>

definition compileSecondaryEntryPointsEsm :: "BuildEnv \<Rightarrow> string \<Rightarrow> string \<Rightarrow> ToolCall" where
  "compileSecondaryEntryPointsEsm env packageName packageRoot =
     CompileSecondaryEntryPointsEsm
       (map (\<lambda>p. Tsc (join env [packageRoot, p, ''tsconfig-build.json''])
                      (join env [packageRoot, p]))
            (getSecondaryEntryPointsForPackage env packageName))"

definition createPackageBuildTasks ::
    "BuildEnv \<Rightarrow> string \<Rightarrow> string list \<Rightarrow> PackageTaskOptions \<Rightarrow> Registry \<Rightarrow> Registry" where
  "createPackageBuildTasks env packageName dependencies options reg =
     (let packageRoot =
            join env [packagesDir env,
                      if packageName = ''material'' then ''lib'' else packageName];
          packageOut = join env [outputDir env, ''packages'', packageName];
          tsconfigBuild = join env [packageRoot, ''tsconfig-build.json''];
          tsconfigTests = join env [packageRoot, ''tsconfig-tests.json''];
          esmMainFile = join env [packageOut, ''index.js''];
          stylesGlob = join env [packageRoot, ''**/*.+(scss|css)''];
          htmlGlob = join env [packageRoot, ''**/*.html''];
          dependentWatchTasks = map (\<lambda>pkgName. pkgName @ '':watch'') dependencies;
          secondary = (useSecondaryEntryPoints options = Some True);
          r1 = task (packageName @ '':clean-build'') []
                 (Some (SequenceTask [Task ''clean'', Task (packageName @ '':build'')])) reg;
          r2 = task (packageName @ '':build'') []
                 (Some (SequenceTask
                    (map (\<lambda>pkgName. Task (pkgName @ '':build'')) dependencies @
                     [Parallel [packageName @ '':build:esm'', packageName @ '':assets''],
                      Task (packageName @ '':assets:inline''),
                      Task (packageName @ '':build:bundles'')]))) r1;
          r3 = task (packageName @ '':build-tests'') []
                 (Some (SequenceTask
                    (map (\<lambda>pkgName. Task (pkgName @ '':build-tests'')) dependencies @
                     [Parallel [packageName @ '':build:esm:tests'', packageName @ '':assets''],
                      Task (packageName @ '':assets:inline'')]))) r2;
          r4 = task (packageName @ '':build-release:clean'') []
                 (Some (SequenceTask [Task ''clean'', Task (packageName @ '':build-release'')]))
                 r3;
          r5 = task (packageName @ '':build-release'') [packageName @ '':build'']
                 (Some (ComposeRelease packageName (useSecondaryEntryPoints options))) r4;
          r6 = task (packageName @ '':build:esm'') []
                 (Some (if secondary then
                          PromiseAll [compileSecondaryEntryPointsEsm env packageName packageRoot,
                                      Tsc tsconfigBuild packageRoot]
                        else Tsc tsconfigBuild packageRoot)) r5;
          r7 = task (packageName @ '':build:esm:tests'') []
                 (Some (Tsc tsconfigTests packageRoot)) r6;
          r8 = task (packageName @ '':build:bundles'') []
                 (Some (if secondary then
                          PromiseAll [BuildPrimaryEntryPointBundles esmMainFile packageName,
                                      BuildAllSecondaryEntryPointBundles ''cdk'']
                        else BuildPrimaryEntryPointBundles esmMainFile packageName)) r7;
          r9 = task (packageName @ '':assets'')
                 [packageName @ '':assets:scss'', packageName @ '':assets:copy-styles'',
                  packageName @ '':assets:html''] None r8;
          r10 = task (packageName @ '':assets:scss'') []
                  (Some (BuildScssTask packageOut packageRoot True)) r9;
          r11 = task (packageName @ '':assets:copy-styles'') []
                  (Some (SrcDest stylesGlob packageOut)) r10;
          r12 = task (packageName @ '':assets:html'') []
                  (Some (SrcHtmlminDest htmlGlob htmlMinifierOptions packageOut)) r11;
          r13 = task (packageName @ '':assets:inline'') []
                  (Some (InlineResourcesForDirectory packageOut)) r12;
          r14 = task (packageName @ '':watch'') dependentWatchTasks
                  (Some (WatchFiles (join env [packageRoot, ''**/*.+(ts|scss|html)''])
                           [packageName @ '':build''])) r13
      in r14)"

section \<open>Sample states\<close>

text \<open>
  Concrete inputs for the examples below: a host element that can take focus, the
  option the constructor returns for it at counter 0 (no group), and the same option
  inside a disabled group.
\<close>

abbreviation sampleElement :: HostElement where
  "sampleElement \<equiv> \<lparr>hasFocusMember = True, focusCalls = 0\<rparr>"

abbreviation sampleOption :: "unit MdOption" where
  "sampleOption \<equiv> fst (constructor sampleElement None None 0)"

abbreviation groupDisabledOption :: "unit MdOption" where
  "groupDisabledOption \<equiv>
     fst (constructor sampleElement (Some \<lparr>optgroup_disabled = True\<rparr>) None 0)"

section \<open>Invariant of the module\<close>

text \<open>
  What every state of the module satisfies that is reached from its initial state: the
  counter is the number of constructions, capped at \<open>MAX_EXACT\<close>, and the instance
  constructed as number \<open>i\<close> (counting from 0) carries the identifier of the counter value
  it saw.
\<close>

definition idInvariant :: "'v Module \<Rightarrow> bool" where
  "idInvariant m \<longleftrightarrow>
     uniqueIdCounter m = min (length (instances m)) MAX_EXACT \<and>
     map priv_id (instances m) = map (\<lambda>i. optionId (min i MAX_EXACT)) [0..<length (instances m)]"

section \<open>Identifiers\<close>

text \<open>The printed digits determine the number, so equal identifiers mean equal counters.\<close>

lemma digitChar_inj: "a < 10 \<Longrightarrow> b < 10 \<Longrightarrow> digitChar a = digitChar b \<Longrightarrow> a = b"
proof -
  assume a: "a < 10" and b: "b < 10" and e: "digitChar a = digitChar b"
  have d: "distinct ''0123456789''" by simp
  have l: "length ''0123456789'' = 10" by simp
  from e have "''0123456789'' ! a = ''0123456789'' ! b" by (simp only: digitChar_def)
  with d l a b show "a = b" by (simp only: nth_eq_iff_index_eq)
qed

lemma numberToString_nonempty: "numberToString n \<noteq> []"
  by (subst numberToString.simps) simp

lemma numberToString_inj: "numberToString a = numberToString b \<Longrightarrow> a = b"
proof (induction a arbitrary: b rule: numberToString.induct)
  case (1 n)
  show ?case
  proof (cases "n < 10")
    case True
    note n = this
    show ?thesis
    proof (cases "b < 10")
      case True
      with n "1.prems" show ?thesis
        by (simp add: numberToString.simps [of n] numberToString.simps [of b] digitChar_inj)
    next
      case False
      with n "1.prems" show ?thesis
        by (simp add: numberToString.simps [of n] numberToString.simps [of b]
            numberToString_nonempty [THEN not_sym])
    qed
  next
    case False
    note n = this
    show ?thesis
    proof (cases "b < 10")
      case True
      with n "1.prems" show ?thesis
        by (simp add: numberToString.simps [of n] numberToString.simps [of b]
            numberToString_nonempty)
    next
      case False
      with n "1.prems"
      have e: "numberToString (n div 10) = numberToString (b div 10)"
        and d: "digitChar (n mod 10) = digitChar (b mod 10)"
        by (simp_all add: numberToString.simps [of n] numberToString.simps [of b])
      from "1.IH" [OF n e] have q: "n div 10 = b div 10" .
      from d have r: "n mod 10 = b mod 10" by (simp add: digitChar_inj)
      from q r show ?thesis by (metis div_mult_mod_eq)
    qed
  qed
qed

lemma optionId_inj: "optionId a = optionId b \<Longrightarrow> a = b"
  by (simp add: optionId_def numberToString_inj)

text \<open>No call on an instance changes its identifier, and every step keeps the invariant.\<close>

lemma idInvariant_initial: "idInvariant initialModule"
  by (simp add: idInvariant_def initialModule_def)

lemma idInvariant_new: "idInvariant m \<Longrightarrow> idInvariant (newMdOption el g c m)"
  by (auto simp add: idInvariant_def newMdOption_def constructor_def postIncrement_def min_def)

lemma invoke_priv_id: "priv_id (invoke ENTER SPACE this c opt) = priv_id opt"
  by (cases c)
    (simp_all add: select_def deselect_def focus_def setActiveStyles_def setInactiveStyles_def
      handleKeydown_def selectViaInteraction_def set_multiple_def set_disabled_def
      set_disableRipple_def set_value_def emitSelectionChangeEvent_def markForCheck_def
      getHostElement_def Let_def)

lemma idInvariant_step:
  "idInvariant m \<Longrightarrow> step ENTER SPACE a m = Some m' \<Longrightarrow> idInvariant m'"
proof (cases a)
  case (New el g c)
  assume "idInvariant m" "step ENTER SPACE a m = Some m'"
  with New show ?thesis by (auto simp add: idInvariant_new)
next
  case (Call r c)
  assume i: "idInvariant m" and s: "step ENTER SPACE a m = Some m'"
  from s Call have r: "r < length (instances m)"
    and m': "m' = m\<lparr>instances := (instances m)[r := invoke ENTER SPACE r c (instances m ! r)]\<rparr>"
    by (auto split: if_splits)
  have "map priv_id ((instances m)[r := invoke ENTER SPACE r c (instances m ! r)])
      = map priv_id (instances m)"
    using r by (simp add: map_update invoke_priv_id list_update_same_conv)
  with i m' show ?thesis by (simp add: idInvariant_def)
qed

lemma idInvariant_run:
  "idInvariant m \<Longrightarrow> run ENTER SPACE as m = Some m' \<Longrightarrow> idInvariant m'"
proof (induction as arbitrary: m)
  case Nil
  then show ?case by simp
next
  case (Cons a as)
  then show ?case by (auto split: option.splits dest: idInvariant_step)
qed

lemma idInvariant_nth:
  "idInvariant m \<Longrightarrow> i < length (instances m) \<Longrightarrow>
     priv_id (instances m ! i) = optionId (min i MAX_EXACT)"
proof -
  assume inv: "idInvariant m" and i: "i < length (instances m)"
  have "priv_id (instances m ! i) = map priv_id (instances m) ! i" using i by simp
  also have "\<dots> = map (\<lambda>i. optionId (min i MAX_EXACT)) [0..<length (instances m)] ! i"
    using inv by (simp only: idInvariant_def)
  also have "\<dots> = optionId (min i MAX_EXACT)" using i by simp
  finally show ?thesis .
qed

lemma idInvariant_funpow: "idInvariant m \<Longrightarrow> idInvariant ((newMdOption el g c ^^ n) m)"
  by (induction n) (simp_all add: idInvariant_new)

lemma length_funpow:
  "length (instances ((newMdOption el g c ^^ n) m)) = length (instances m) + n"
  by (induction n) (simp_all add: newMdOption_def constructor_def)

section \<open>Selection\<close>

lemmas method_defs =
  select_def deselect_def focus_def setActiveStyles_def setInactiveStyles_def
  handleKeydown_def selectViaInteraction_def set_multiple_def set_disabled_def
  set_disableRipple_def set_value_def emitSelectionChangeEvent_def markForCheck_def
  getHostElement_def preventDefault_def

lemmas getter_defs = disabled_def multiple_def selected_def get_id_def

text \<open>
  C1. An option that is not disabled, is in single mode and is already selected is still
  selected after \<open>_selectViaInteraction\<close>.
\<close>

theorem C1_single_mode_idempotent:
  "\<not> disabled opt \<Longrightarrow> \<not> multiple opt \<Longrightarrow> selected opt
     \<Longrightarrow> selected (selectViaInteraction this opt)"
  by (simp add: selectViaInteraction_def selected_def emitSelectionChangeEvent_def
      markForCheck_def)

text \<open>The sample option after \<open>select()\<close> is such an option.\<close>

theorem C1_single_mode_idempotent_witness:
  "\<not> disabled (select 0 sampleOption)
   \<and> \<not> multiple (select 0 sampleOption)
   \<and> selected (select 0 sampleOption)
   \<and> selected (selectViaInteraction 0 (select 0 sampleOption))"
  using C1_single_mode_idempotent [of "select 0 sampleOption" 0]
  by (simp add: getter_defs select_def constructor_def emitSelectionChangeEvent_def
      markForCheck_def)

text \<open>
  C2. On an option that is not disabled and is in multiple mode,
  \<open>_selectViaInteraction\<close> negates the selected state.
\<close>

theorem C2_multiple_mode_toggles:
  "\<not> disabled opt \<Longrightarrow> multiple opt
     \<Longrightarrow> selected (selectViaInteraction this opt) = (\<not> selected opt)"
  by (simp add: selectViaInteraction_def selected_def emitSelectionChangeEvent_def
      markForCheck_def)

text \<open>The sample option in multiple mode goes from unselected to selected and back.\<close>

theorem C2_multiple_mode_toggles_witness:
  "\<not> disabled (set_multiple True sampleOption)
   \<and> multiple (set_multiple True sampleOption)
   \<and> \<not> selected (set_multiple True sampleOption)
   \<and> selected (selectViaInteraction 0 (set_multiple True sampleOption))
   \<and> \<not> selected (selectViaInteraction 0 (selectViaInteraction 0 (set_multiple True sampleOption)))"
  using C2_multiple_mode_toggles [of "set_multiple True sampleOption" 0]
    C2_multiple_mode_toggles [of "selectViaInteraction 0 (set_multiple True sampleOption)" 0]
  by (simp add: getter_defs method_defs constructor_def)

text \<open>
  C3. When the \<open>disabled\<close> getter is true, \<open>_selectViaInteraction\<close>, a click and a keydown
  (of any key, Enter and Space among them) leave the option as it is: the selected state
  is unchanged and nothing is emitted.
\<close>

theorem C3_disabled_ignores_interaction:
  "disabled opt \<Longrightarrow>
     selectViaInteraction this opt = opt
     \<and> fst (hostListener ENTER SPACE this Click opt) = opt
     \<and> fst (hostListener ENTER SPACE this (Keydown ev) opt) = opt
     \<and> selected (selectViaInteraction this opt) = selected opt
     \<and> onSelectionChange (selectViaInteraction this opt) = onSelectionChange opt"
  by (simp add: selectViaInteraction_def handleKeydown_def Let_def)

text \<open>An option inside a disabled group, with Enter as key 13.\<close>

theorem C3_disabled_ignores_interaction_witness:
  "disabled groupDisabledOption
   \<and> selectViaInteraction 0 groupDisabledOption = groupDisabledOption
   \<and> fst (hostListener 13 32 0 Click groupDisabledOption) = groupDisabledOption
   \<and> fst (hostListener 13 32 0 (Keydown \<lparr>keyCode = 13, preventDefaultCalls = 0\<rparr>)
          groupDisabledOption) = groupDisabledOption"
proof -
  have d: "disabled groupDisabledOption"
    by (simp add: disabled_def constructor_def)
  from C3_disabled_ignores_interaction
    [OF d, of 0 13 32 "\<lparr>keyCode = 13, preventDefaultCalls = 0\<rparr>"] d
  show ?thesis by simp
qed

text \<open>
  C4. The \<open>disabled\<close> getter is true exactly when the option's own \<open>_disabled\<close> flag is
  true or the option has a group whose \<open>disabled\<close> flag is true.
\<close>

theorem C4_disabled_getter:
  "disabled opt = (priv_disabled opt \<or> (\<exists>g. group opt = Some g \<and> optgroup_disabled g))"
  by (cases "group opt") (auto simp add: disabled_def)

text \<open>The group's flag alone, the own flag alone, and neither.\<close>

theorem C4_disabled_getter_witness:
  "disabled groupDisabledOption
   \<and> disabled (set_disabled True sampleOption)
   \<and> \<not> disabled sampleOption"
  using C4_disabled_getter [of groupDisabledOption]
    C4_disabled_getter [of "set_disabled True sampleOption"]
    C4_disabled_getter [of sampleOption]
  by (simp add: constructor_def set_disabled_def)

text \<open>
  C5. For a key code that is \<open>ENTER\<close> or \<open>SPACE\<close>, \<open>_handleKeydown\<close> leaves the option
  as \<open>_selectViaInteraction\<close> (the click listener) does and calls \<open>preventDefault\<close> once on
  the event; for any other key code it changes neither the option nor the event.
\<close>

theorem C5_keydown_is_click:
  "(keyCode ev = ENTER \<or> keyCode ev = SPACE \<longrightarrow>
      handleKeydown ENTER SPACE this ev opt = (selectViaInteraction this opt, preventDefault ev)
      \<and> fst (hostListener ENTER SPACE this (Keydown ev) opt)
          = fst (hostListener ENTER SPACE this Click opt)
      \<and> preventDefaultCalls (snd (handleKeydown ENTER SPACE this ev opt))
          = preventDefaultCalls ev + 1)
   \<and> (keyCode ev \<noteq> ENTER \<and> keyCode ev \<noteq> SPACE \<longrightarrow>
      handleKeydown ENTER SPACE this ev opt = (opt, ev))"
  by (simp add: handleKeydown_def Let_def preventDefault_def)

text \<open>Space (32) selects the sample option and is prevented; the key 65 does nothing.\<close>

theorem C5_keydown_is_click_witness:
  "handleKeydown 13 32 0 \<lparr>keyCode = 32, preventDefaultCalls = 0\<rparr> sampleOption
     = (selectViaInteraction 0 sampleOption, \<lparr>keyCode = 32, preventDefaultCalls = 1\<rparr>)
   \<and> selected (fst (handleKeydown 13 32 0 \<lparr>keyCode = 32, preventDefaultCalls = 0\<rparr> sampleOption))
   \<and> handleKeydown 13 32 0 \<lparr>keyCode = 65, preventDefaultCalls = 0\<rparr> sampleOption
     = (sampleOption, \<lparr>keyCode = 65, preventDefaultCalls = 0\<rparr>)"
  using C5_keydown_is_click [of "\<lparr>keyCode = 32, preventDefaultCalls = 0\<rparr>" 13 32 0 sampleOption]
    C5_keydown_is_click [of "\<lparr>keyCode = 65, preventDefaultCalls = 0\<rparr>" 13 32 0 sampleOption]
  by (simp add: getter_defs method_defs constructor_def)

text \<open>
  C7. \<open>select()\<close> sets selected to true and \<open>deselect()\<close> sets it to false; each emits
  exactly one selection-change event, whose source is the receiver and whose
  \<open>isUserInput\<close> is false. \<open>_selectViaInteraction\<close> emits nothing on a disabled option and
  otherwise exactly one event, whose source is the receiver and whose \<open>isUserInput\<close> is
  true.
\<close>

theorem C7_events:
  "selected (select this opt)
   \<and> onSelectionChange (select this opt)
        = onSelectionChange opt @ [\<lparr>source = this, isUserInput = False\<rparr>]
   \<and> \<not> selected (deselect this opt)
   \<and> onSelectionChange (deselect this opt)
        = onSelectionChange opt @ [\<lparr>source = this, isUserInput = False\<rparr>]
   \<and> onSelectionChange (selectViaInteraction this opt)
        = onSelectionChange opt @
            (if disabled opt then [] else [\<lparr>source = this, isUserInput = True\<rparr>])"
  by (simp add: select_def deselect_def selectViaInteraction_def selected_def
      emitSelectionChangeEvent_def markForCheck_def)

text \<open>The events of the sample option, held under reference 7.\<close>

theorem C7_events_witness:
  "onSelectionChange (select 7 sampleOption) = [\<lparr>source = 7, isUserInput = False\<rparr>]
   \<and> onSelectionChange (deselect 7 sampleOption) = [\<lparr>source = 7, isUserInput = False\<rparr>]
   \<and> onSelectionChange (selectViaInteraction 7 sampleOption)
        = [\<lparr>source = 7, isUserInput = True\<rparr>]"
  using C7_events [of 7 sampleOption]
  by (simp add: disabled_def constructor_def)

text \<open>
  In the module, the reference a call goes through is the reference the event carries.
\<close>

lemma step_select_source:
  "step ENTER SPACE (Call r Select) m = Some m' \<Longrightarrow>
     last (onSelectionChange (instances m' ! r)) = \<lparr>source = r, isUserInput = False\<rparr>
     \<and> selected (instances m' ! r)"
  by (auto simp add: select_def selected_def emitSelectionChangeEvent_def markForCheck_def
      split: if_splits)

text \<open>
  C10. \<open>select()\<close> and \<open>deselect()\<close> do not read the disabled state: on a disabled option
  they still set the selected state and emit their event, and changing the option's own
  flag or its group beforehand changes nothing else in their result; on the same option
  \<open>_selectViaInteraction\<close> does nothing.
\<close>

theorem C10_programmatic_ignores_disabled:
  "disabled opt \<Longrightarrow>
     selected (select this opt)
     \<and> onSelectionChange (select this opt)
          = onSelectionChange opt @ [\<lparr>source = this, isUserInput = False\<rparr>]
     \<and> \<not> selected (deselect this opt)
     \<and> onSelectionChange (deselect this opt)
          = onSelectionChange opt @ [\<lparr>source = this, isUserInput = False\<rparr>]
     \<and> select this (opt\<lparr>priv_disabled := d, group := g\<rparr>)
          = (select this opt)\<lparr>priv_disabled := d, group := g\<rparr>
     \<and> deselect this (opt\<lparr>priv_disabled := d, group := g\<rparr>)
          = (deselect this opt)\<lparr>priv_disabled := d, group := g\<rparr>
     \<and> selectViaInteraction this opt = opt"
  by (simp add: select_def deselect_def selectViaInteraction_def selected_def
      emitSelectionChangeEvent_def markForCheck_def)

text \<open>The sample option with its own flag set.\<close>

theorem C10_programmatic_ignores_disabled_witness:
  "disabled (set_disabled True sampleOption)
   \<and> selected (select 0 (set_disabled True sampleOption))
   \<and> onSelectionChange (select 0 (set_disabled True sampleOption))
        = [\<lparr>source = 0, isUserInput = False\<rparr>]
   \<and> onSelectionChange (deselect 0 (set_disabled True sampleOption))
        = [\<lparr>source = 0, isUserInput = False\<rparr>]
   \<and> selectViaInteraction 0 (set_disabled True sampleOption) = set_disabled True sampleOption"
proof -
  have d: "disabled (set_disabled True sampleOption)"
    by (simp add: disabled_def set_disabled_def constructor_def)
  have e: "onSelectionChange (set_disabled True sampleOption) = []"
    by (simp add: set_disabled_def constructor_def)
  from C10_programmatic_ignores_disabled [OF d, of 0 None False] d
  show ?thesis unfolding e append_Nil by blast
qed

section \<open>When the event is emitted\<close>

text \<open>
  C8, as the code has it. A call that changes the selected state emits exactly one
  selection-change event. The calls that emit are \<open>select()\<close>, \<open>deselect()\<close> and, on an
  option that is not disabled, \<open>_selectViaInteraction\<close> and a keydown of Enter or Space;
  each of them emits exactly one event on every call, whether or not the selected state
  changes. No other call emits.
\<close>

theorem C8_emission:
  "(selected (invoke ENTER SPACE this c opt) \<noteq> selected opt \<longrightarrow>
      (\<exists>u. onSelectionChange (invoke ENTER SPACE this c opt)
              = onSelectionChange opt @ [\<lparr>source = this, isUserInput = u\<rparr>]))
   \<and> onSelectionChange (invoke ENTER SPACE this c opt)
        = onSelectionChange opt @
            (if c = Select \<or> c = Deselect then [\<lparr>source = this, isUserInput = False\<rparr>]
             else if (c = SelectViaInteraction
                      \<or> (\<exists>ev. c = HandleKeydown ev \<and> (keyCode ev = ENTER \<or> keyCode ev = SPACE)))
                     \<and> \<not> disabled opt
                  then [\<lparr>source = this, isUserInput = True\<rparr>]
             else [])"
  by (cases c) (auto simp add: method_defs selected_def Let_def)

text \<open>\<open>select()\<close> on the unselected sample option changes the state and emits one event.\<close>

theorem C8_emission_witness:
  "selected (invoke 13 32 0 Select sampleOption) \<noteq> selected sampleOption
   \<and> onSelectionChange (invoke 13 32 0 Select sampleOption)
        = [\<lparr>source = 0, isUserInput = False\<rparr>]
   \<and> onSelectionChange (invoke 13 32 0 SetActiveStyles sampleOption) = []"
  using C8_emission [of 13 32 0 Select sampleOption]
    C8_emission [of 13 32 0 SetActiveStyles sampleOption]
  by (simp add: selected_def select_def constructor_def emitSelectionChangeEvent_def
      markForCheck_def)

text \<open>
  C8 as "an event is emitted only when the selected state changes" fails: \<open>select()\<close> on
  an option that is already selected, and a click on it in single mode, each emit an
  event and leave it selected.
\<close>

theorem C8_emission_counterexample:
  "selected (select 0 sampleOption)
   \<and> selected (select 0 (select 0 sampleOption))
   \<and> onSelectionChange (select 0 (select 0 sampleOption))
        = onSelectionChange (select 0 sampleOption) @ [\<lparr>source = 0, isUserInput = False\<rparr>]
   \<and> selected (selectViaInteraction 0 (select 0 sampleOption))
   \<and> onSelectionChange (selectViaInteraction 0 (select 0 sampleOption))
        = onSelectionChange (select 0 sampleOption) @ [\<lparr>source = 0, isUserInput = True\<rparr>]"
  by (simp add: getter_defs method_defs constructor_def)

section \<open>Uniqueness of identifiers\<close>

lemma idInvariant_counter:
  "idInvariant m \<Longrightarrow> uniqueIdCounter m = min (length (instances m)) MAX_EXACT"
  by (simp add: idInvariant_def)

lemma reachable_id:
  assumes "run ENTER SPACE acts initialModule = Some m" and "i < length (instances m)"
  shows "get_id (instances m ! i) = optionId (min i MAX_EXACT)"
proof -
  from assms(1) have "idInvariant m"
    by (rule idInvariant_run [OF idInvariant_initial])
  from idInvariant_nth [OF this assms(2)] show ?thesis
    by (simp add: get_id_def)
qed

lemma reachable_id_eq:
  assumes "run ENTER SPACE acts initialModule = Some m"
    and "i < length (instances m)" and "j < length (instances m)"
  shows "get_id (instances m ! i) = get_id (instances m ! j)
    \<longleftrightarrow> min i MAX_EXACT = min j MAX_EXACT"
proof -
  have "optionId a = optionId b \<longleftrightarrow> a = b" for a b
    using optionId_inj by blast
  with reachable_id [OF assms(1) assms(2)] reachable_id [OF assms(1) assms(3)]
  show ?thesis by simp
qed

text \<open>
  C6. Each construction gives the new instance the identifier \<open>md-option-N\<close> for the
  current value \<open>N\<close> of the module's counter and increments the counter, which is exact
  while \<open>N < 2^53\<close>, the range in which a JavaScript number counts. In a module run from
  its initial state, with any calls on the instances in between, the counter is the
  number of instances constructed so far, the instance constructed as number \<open>i\<close> has
  the identifier \<open>md-option-i\<close>, and any two distinct instances have distinct
  identifiers; all of this for instance numbers up to \<open>2^53\<close>. Two distinct instances
  with one identifier exist only in a module that has constructed at least \<open>2^53 + 2\<close>
  instances.
\<close>

theorem C6_ids_distinct:
  "(run ENTER SPACE acts initialModule = Some m \<and> i < length (instances m)
      \<and> j < length (instances m) \<and> i \<noteq> j \<and> i \<le> 2 ^ 53 \<and> j \<le> 2 ^ 53
      \<longrightarrow> get_id (instances m ! i) \<noteq> get_id (instances m ! j))
   \<and> (run ENTER SPACE acts initialModule = Some m \<and> i < length (instances m)
      \<and> j < length (instances m) \<and> i \<noteq> j
      \<and> get_id (instances m ! i) = get_id (instances m ! j)
      \<longrightarrow> 2 ^ 53 + 2 \<le> length (instances m))
   \<and> (run ENTER SPACE acts initialModule = Some m \<and> i < length (instances m) \<and> i \<le> 2 ^ 53
      \<longrightarrow> get_id (instances m ! i) = ''md-option-'' @ numberToString i)
   \<and> (run ENTER SPACE acts initialModule = Some m \<and> length (instances m) \<le> 2 ^ 53
      \<longrightarrow> uniqueIdCounter m = length (instances m))
   \<and> instances (newMdOption el g c w)
        = instances w @ [fst (constructor el g c (uniqueIdCounter w))]
   \<and> get_id (last (instances (newMdOption el g c w)))
        = ''md-option-'' @ numberToString (uniqueIdCounter w)
   \<and> uniqueIdCounter (newMdOption el g c w)
        = (if uniqueIdCounter w < 2 ^ 53 then uniqueIdCounter w + 1 else uniqueIdCounter w)"
proof -
  have M: "MAX_EXACT = 2 ^ 53" by (simp add: MAX_EXACT_def)
  have distinct: "get_id (instances m ! i) \<noteq> get_id (instances m ! j)"
    if "run ENTER SPACE acts initialModule = Some m" "i < length (instances m)"
      "j < length (instances m)" "i \<noteq> j" "i \<le> 2 ^ 53" "j \<le> 2 ^ 53"
    using reachable_id_eq [OF that(1) that(2) that(3)] that(4) that(5) that(6)
    by (simp add: M min_def)
  have needs: "2 ^ 53 + 2 \<le> length (instances m)"
    if "run ENTER SPACE acts initialModule = Some m" "i < length (instances m)"
      "j < length (instances m)" "i \<noteq> j"
      "get_id (instances m ! i) = get_id (instances m ! j)"
  proof -
    from reachable_id_eq [OF that(1) that(2) that(3)] that(5)
    have "min i MAX_EXACT = min j MAX_EXACT" by simp
    with that(4) have "MAX_EXACT \<le> i \<and> MAX_EXACT \<le> j" by (auto simp add: min_def split: if_splits)
    with that(2) that(3) that(4) show ?thesis unfolding M by arith
  qed
  have numbered: "get_id (instances m ! i) = ''md-option-'' @ numberToString i"
    if "run ENTER SPACE acts initialModule = Some m" "i < length (instances m)" "i \<le> 2 ^ 53"
    using reachable_id [OF that(1) that(2)] that(3) by (simp add: M min_def optionId_def)
  have counter: "uniqueIdCounter m = length (instances m)"
    if "run ENTER SPACE acts initialModule = Some m" "length (instances m) \<le> 2 ^ 53"
  proof -
    from that(1) have "idInvariant m" by (rule idInvariant_run [OF idInvariant_initial])
    from idInvariant_counter [OF this] that(2) show ?thesis by (simp add: M min_def)
  qed
  have new: "instances (newMdOption el g c w)
        = instances w @ [fst (constructor el g c (uniqueIdCounter w))]
    \<and> get_id (last (instances (newMdOption el g c w)))
        = ''md-option-'' @ numberToString (uniqueIdCounter w)
    \<and> uniqueIdCounter (newMdOption el g c w)
        = (if uniqueIdCounter w < 2 ^ 53 then uniqueIdCounter w + 1 else uniqueIdCounter w)"
    by (simp add: newMdOption_def constructor_def get_id_def optionId_def postIncrement_def M)
  from distinct needs numbered counter new show ?thesis by blast
qed

text \<open>
  Two constructions with a call in between: the counter is 2 and the identifiers are
  \<open>md-option-0\<close> and \<open>md-option-1\<close>; a third construction gets \<open>md-option-2\<close>.
\<close>

theorem C6_ids_distinct_witness:
  "get_id (instances (the (run 13 32
        [New sampleElement None None, Call 0 Select, New sampleElement None None]
        (initialModule :: unit Module))) ! 0) = ''md-option-0''
   \<and> get_id (instances (the (run 13 32
        [New sampleElement None None, Call 0 Select, New sampleElement None None]
        (initialModule :: unit Module))) ! 1) = ''md-option-1''
   \<and> get_id (instances (the (run 13 32
        [New sampleElement None None, Call 0 Select, New sampleElement None None]
        (initialModule :: unit Module))) ! 0)
      \<noteq> get_id (instances (the (run 13 32
        [New sampleElement None None, Call 0 Select, New sampleElement None None]
        (initialModule :: unit Module))) ! 1)
   \<and> uniqueIdCounter (the (run 13 32
        [New sampleElement None None, Call 0 Select, New sampleElement None None]
        (initialModule :: unit Module))) = 2
   \<and> get_id (last (instances (newMdOption sampleElement None None (the (run 13 32
        [New sampleElement None None, Call 0 Select, New sampleElement None None]
        (initialModule :: unit Module)))))) = ''md-option-2''"
proof -
  let ?acts = "[New sampleElement None None, Call 0 Select,
         New sampleElement None None] :: unit Action list"
  let ?m = "the (run 13 32 ?acts initialModule)"
  have len: "length (instances ?m) = 2"
    by (simp add: initialModule_def newMdOption_def constructor_def)
  have r: "run 13 32 ?acts initialModule = Some ?m"
    by (simp add: initialModule_def newMdOption_def constructor_def)
  have l0: "0 < length (instances ?m)" by (simp only: len; simp)
  have l1: "1 < length (instances ?m)" by (simp only: len; simp)
  have le: "length (instances ?m) \<le> 2 ^ 53" by (simp only: len; simp)
  have a: "(0::nat) \<noteq> 1" "(1::nat) \<noteq> 0" "(0::nat) \<le> 2 ^ 53" "(1::nat) \<le> 2 ^ 53"
    by simp_all
  note c = C6_ids_distinct [of 13 32 ?acts ?m 0 1 sampleElement None None ?m]
  from c r l0 l1 a
  have d: "get_id (instances ?m ! 0) \<noteq> get_id (instances ?m ! 1)"
    by blast
  from c r l0 a
  have i0: "get_id (instances ?m ! 0) = ''md-option-'' @ numberToString 0"
    by blast
  from C6_ids_distinct [of 13 32 ?acts ?m 1 0 sampleElement None None ?m] r l1 a
  have i1: "get_id (instances ?m ! 1) = ''md-option-'' @ numberToString 1"
    by blast
  from c r le have "uniqueIdCounter ?m = length (instances ?m)"
    by blast
  then have n: "uniqueIdCounter ?m = 2"
    by (simp only: len)
  from c
  have l: "get_id (last (instances (newMdOption sampleElement None None ?m)))
      = ''md-option-'' @ numberToString (uniqueIdCounter ?m)"
    by blast
  have s0: "''md-option-'' @ numberToString 0 = ''md-option-0''"
    and s1: "''md-option-'' @ numberToString 1 = ''md-option-1''"
    and s2: "''md-option-'' @ numberToString 2 = ''md-option-2''"
    by (simp_all add: numberToString.simps digitChar_def)
  from d i0 [unfolded s0] i1 [unfolded s1] n l [unfolded n s2]
  show ?thesis by blast
qed

text \<open>
  The bound is the last value the counter reaches. Of \<open>2^53 + 2\<close> instances constructed
  in sequence from the initial module, the last two (numbers \<open>2^53\<close> and \<open>2^53 + 1\<close>)
  both carry \<open>md-option-9007199254740992\<close>.
\<close>

lemma ids_repeat_at_limit:
  "get_id (instances
      ((newMdOption sampleElement None None ^^ 9007199254740994)
         (initialModule :: unit Module)) ! 9007199254740992) = ''md-option-9007199254740992''
   \<and> get_id (instances
      ((newMdOption sampleElement None None ^^ 9007199254740994)
         (initialModule :: unit Module)) ! 9007199254740993) = ''md-option-9007199254740992''"
proof -
  define m :: "unit Module"
    where "m = (newMdOption sampleElement None None
                  ^^ 9007199254740994) initialModule"
  have inv: "idInvariant m"
    unfolding m_def by (rule idInvariant_funpow [OF idInvariant_initial])
  have len: "length (instances m) = 9007199254740994"
    unfolding m_def by (simp only: length_funpow) (simp add: initialModule_def)
  have a: "priv_id (instances m ! 9007199254740992) = optionId (min 9007199254740992 MAX_EXACT)"
    by (rule idInvariant_nth [OF inv]) (simp only: len; simp)
  have b: "priv_id (instances m ! 9007199254740993) = optionId (min 9007199254740993 MAX_EXACT)"
    by (rule idInvariant_nth [OF inv]) (simp only: len; simp)
  have s: "optionId 9007199254740992 = ''md-option-9007199254740992''"
    by (simp add: optionId_def numberToString.simps digitChar_def)
  have M: "MAX_EXACT = 9007199254740992" by (simp add: MAX_EXACT_def)
  from a b s show ?thesis
    unfolding m_def [symmetric] by (simp add: get_id_def M)
qed

section \<open>The build task of a package\<close>

text \<open>
  C9. For every package name, whatever was registered before,
  \<open>createPackageBuildTasks\<close> leaves a task \<open><packageName>:build\<close> registered whose body is
  the sequence: the \<open>:build\<close> task of every dependency in list order, then the ESM compile
  and the asset task together, then the asset-inline task, then the bundle task. The
  clean step (\<open>:clean-build\<close>, which runs the task \<open>clean\<close> before \<open>:build\<close>), the compile
  step (\<open>:build:esm\<close>), the asset steps (\<open>:assets\<close>, \<open>:assets:copy-styles\<close>), the inline
  step (\<open>:assets:inline\<close>), the bundle step (\<open>:build:bundles\<close>) and the watch step
  (\<open>:watch\<close>) are registered under their names, each with a body that is a call of an
  imported tool.
\<close>

theorem C9_build_tasks:
  "(let tasks = createPackageBuildTasks env packageName dependencies options reg;
        packageRoot =
          join env [packagesDir env, if packageName = ''material'' then ''lib'' else packageName];
        packageOut = join env [outputDir env, ''packages'', packageName]
    in tasks (packageName @ '':build'')
         = Some \<lparr>dependsOn = [],
                 body = Some (SequenceTask
                   (map (\<lambda>d. Task (d @ '':build'')) dependencies @
                    [Parallel [packageName @ '':build:esm'', packageName @ '':assets''],
                     Task (packageName @ '':assets:inline''),
                     Task (packageName @ '':build:bundles'')]))\<rparr>
     \<and> tasks (packageName @ '':clean-build'')
         = Some \<lparr>dependsOn = [],
                 body = Some (SequenceTask [Task ''clean'', Task (packageName @ '':build'')])\<rparr>
     \<and> tasks (packageName @ '':build:esm'')
         = Some \<lparr>dependsOn = [],
                 body = Some
                   (if useSecondaryEntryPoints options = Some True then
                      PromiseAll [compileSecondaryEntryPointsEsm env packageName packageRoot,
                                  Tsc (join env [packageRoot, ''tsconfig-build.json'']) packageRoot]
                    else Tsc (join env [packageRoot, ''tsconfig-build.json'']) packageRoot)\<rparr>
     \<and> tasks (packageName @ '':assets'')
         = Some \<lparr>dependsOn = [packageName @ '':assets:scss'',
                              packageName @ '':assets:copy-styles'',
                              packageName @ '':assets:html''],
                 body = None\<rparr>
     \<and> tasks (packageName @ '':assets:copy-styles'')
         = Some \<lparr>dependsOn = [],
                 body = Some (SrcDest (join env [packageRoot, ''**/*.+(scss|css)'']) packageOut)\<rparr>
     \<and> tasks (packageName @ '':assets:inline'')
         = Some \<lparr>dependsOn = [], body = Some (InlineResourcesForDirectory packageOut)\<rparr>
     \<and> tasks (packageName @ '':build:bundles'')
         = Some \<lparr>dependsOn = [],
                 body = Some
                   (if useSecondaryEntryPoints options = Some True then
                      PromiseAll [BuildPrimaryEntryPointBundles
                                    (join env [packageOut, ''index.js'']) packageName,
                                  BuildAllSecondaryEntryPointBundles ''cdk'']
                    else BuildPrimaryEntryPointBundles
                           (join env [packageOut, ''index.js'']) packageName)\<rparr>
     \<and> tasks (packageName @ '':watch'')
         = Some \<lparr>dependsOn = map (\<lambda>d. d @ '':watch'') dependencies,
                 body = Some (WatchFiles (join env [packageRoot, ''**/*.+(ts|scss|html)''])
                                [packageName @ '':build''])\<rparr>)"
  by (simp add: createPackageBuildTasks_def Let_def task_def)

text \<open>
  The package \<open>material\<close>, which depends on \<open>cdk\<close>, registered after a task that already
  had the name \<open>material:build\<close>.
\<close>

theorem C9_build_tasks_witness:
  "createPackageBuildTasks
     \<lparr>join = concat, packagesDir = ''src/'', outputDir = ''dist/'',
      getSecondaryEntryPointsForPackage = (\<lambda>p. [])\<rparr>
     ''material'' [''cdk''] \<lparr>useSecondaryEntryPoints = None\<rparr>
     (Map.empty(''material:build'' \<mapsto> \<lparr>dependsOn = [], body = None\<rparr>))
     ''material:build''
   = Some \<lparr>dependsOn = [],
           body = Some (SequenceTask
             [Task ''cdk:build'',
              Parallel [''material:build:esm'', ''material:assets''],
              Task ''material:assets:inline'',
              Task ''material:build:bundles''])\<rparr>"
  using C9_build_tasks
    [of "\<lparr>join = concat, packagesDir = ''src/'', outputDir = ''dist/'',
          getSecondaryEntryPointsForPackage = (\<lambda>p. [])\<rparr>"
        "''material''" "[''cdk'']" "\<lparr>useSecondaryEntryPoints = None\<rparr>"
        "Map.empty(''material:build'' \<mapsto> \<lparr>dependsOn = [], body = None\<rparr>)"]
  by (simp add: Let_def)

end
